theory Spec2Isabelle
  imports Complex_Main "HOL-Library.Char_ord" "HOL-Library.List_Lexorder"
    "HOL-Library.Product_Lexorder" "HOL-Library.Multiset"
begin

section \<open>Data model\<close>

text \<open>
  The three dashboards (IT: app3, education: app4, construction: app5) read one table of
  company rows. A cell of a text column may be null, so those columns are optional values per
  row; the numeric columns the code reads without any null handling are plain numbers
  (the arithmetic of the code is carried out over the reals). The column \<open>segmento\<close> stands
  for \<open>segmento_educacional\<close> (app4) and \<open>segmento_construcao\<close> (app5).
\<close>

record company =
  cnpj_completo :: "string option"
  uf_norm :: "string option"
  municipio_norm :: "string option"
  capital_social :: real
  idade_empresa_anos :: real
  score_contato :: real
  is_high_ticket :: bool
  tier_cliente :: "string option"
  porte_descricao_norm :: "string option"
  segmento :: "string option"
  natureza_juridica :: string
  qualidade_contato :: "string option"
  risco_operacional :: "string option"

text \<open>
  A data frame is its rows together with the names of the columns the file carries. The
  columns \<open>uf_norm\<close>, \<open>municipio_norm\<close>, \<open>cnpj_completo\<close>, \<open>capital_social\<close> and
  \<open>idade_empresa_anos\<close> are read unconditionally by every dashboard; the presence of the
  others is tested through \<open>columns\<close>, and a field of a row whose column is absent is never
  read by the model.
\<close>

record dataframe =
  rows :: "company list"
  columns :: "string list"

datatype py_exception = KeyError string | AttributeError string | ZeroDivisionError

datatype app = TI | Educacao | Construcao

definition has_column :: "dataframe \<Rightarrow> string \<Rightarrow> bool" where
  "has_column df c = (c \<in> set (columns df))"

section \<open>Aggregator: groupby and agg\<close>

text \<open>
  \<open>df.groupby(col)\<close>: one group per distinct non-null key, keys in ascending order, each
  group holding its rows in their original order; rows with a null key belong to no group.
\<close>

definition group_keys :: "(company \<Rightarrow> string option) \<Rightarrow> company list \<Rightarrow> string list" where
  "group_keys col rs = sort (remdups (List.map_filter col rs))"

definition groupby :: "(company \<Rightarrow> string option) \<Rightarrow> company list \<Rightarrow> (string \<times> company list) list" where
  "groupby col rs = map (\<lambda>k. (k, filter (\<lambda>r. col r = Some k) rs)) (group_keys col rs)"

text \<open>The aggregations \<open>'count'\<close> (non-null cells of a column), \<open>'mean'\<close> and \<open>'sum'\<close>.\<close>

definition agg_count :: "(company \<Rightarrow> 'a option) \<Rightarrow> company list \<Rightarrow> nat" where
  "agg_count col g = length (filter (\<lambda>r. col r \<noteq> None) g)"

definition agg_mean :: "(company \<Rightarrow> real) \<Rightarrow> company list \<Rightarrow> real" where
  "agg_mean col g = sum_list (map col g) / real (length g)"

definition agg_sum_flag :: "(company \<Rightarrow> bool) \<Rightarrow> company list \<Rightarrow> nat" where
  "agg_sum_flag col g = length (filter col g)"

text \<open>
  One row of \<open>city_matrix_full\<close>: the group key, \<open>total\<close>, and the second metric, which is
  \<open>idade\<close> (mean age) in app3 and \<open>high_ticket\<close> in app4 and app5.
\<close>

record city_stats =
  municipio :: string
  total :: real
  second :: real

definition df_state_baseline :: "dataframe \<Rightarrow> string \<Rightarrow> company list" where
  "df_state_baseline df sel_uf = filter (\<lambda>r. uf_norm r = Some sel_uf) (rows df)"

definition city_matrix_idade :: "company list \<Rightarrow> city_stats list" where
  "city_matrix_idade rs =
     map (\<lambda>(k, g). \<lparr>municipio = k, total = real (agg_count cnpj_completo g),
                     second = agg_mean idade_empresa_anos g\<rparr>)
         (groupby municipio_norm rs)"

definition city_matrix_high_ticket :: "company list \<Rightarrow> city_stats list" where
  "city_matrix_high_ticket rs =
     map (\<lambda>(k, g). \<lparr>municipio = k, total = real (agg_count cnpj_completo g),
                     second = real (agg_sum_flag is_high_ticket g)\<rparr>)
         (groupby municipio_norm rs)"

text \<open>
  \<open>city_matrix_full\<close> of the benchmarking branch. app4 and app5 aggregate the column
  \<open>is_high_ticket\<close> without testing for it: naming an absent column raises \<open>KeyError\<close>.
\<close>

definition city_matrix_full :: "app \<Rightarrow> dataframe \<Rightarrow> string \<Rightarrow> py_exception + city_stats list" where
  "city_matrix_full a df sel_uf =
     (case a of
        TI \<Rightarrow> Inr (city_matrix_idade (df_state_baseline df sel_uf))
      | _ \<Rightarrow> if has_column df ''is_high_ticket''
              then Inr (city_matrix_high_ticket (df_state_baseline df sel_uf))
              else Inl (KeyError ''is_high_ticket''))"

section \<open>Normalizer and Peer Finder\<close>

text \<open>
  \<open>col.max() if col.max() > 0 else 1\<close>. The maximum of an empty column is NaN, which is not
  greater than 0, so the scale of an empty column is 1 as well.
\<close>

definition scale_max :: "real list \<Rightarrow> real" where
  "scale_max vs = (if vs \<noteq> [] \<and> Max (set vs) > 0 then Max (set vs) else 1)"

definition normalized :: "real list \<Rightarrow> real \<Rightarrow> real" where
  "normalized vs v = v / scale_max vs"

definition euclid :: "real \<Rightarrow> real \<Rightarrow> real \<Rightarrow> real \<Rightarrow> city_stats \<Rightarrow> real" where
  "euclid val_total val_second max_total max_second c =
     sqrt (((total c - val_total) / max_total)\<^sup>2 + ((second c - val_second) / max_second)\<^sup>2)"

text \<open>\<open>sel_stats\<close>: the rows of the baseline whose key is the selected city.\<close>

definition sel_stats :: "city_stats list \<Rightarrow> string \<Rightarrow> city_stats list" where
  "sel_stats cmf sel_cidade = filter (\<lambda>c. municipio c = sel_cidade) cmf"

text \<open>
  The baseline with its new column \<open>dist_euclidiana\<close>, for the target row \<open>s\<close>
  (\<open>sel_stats[...].values[0]\<close>). Both scales are computed from the whole baseline.
\<close>

definition with_dist :: "city_stats list \<Rightarrow> city_stats \<Rightarrow> (city_stats \<times> real) list" where
  "with_dist cmf s =
     (let val_total = total s; val_second = second s;
          max_total = scale_max (map total cmf);
          max_second = scale_max (map second cmf)
      in map (\<lambda>c. (c, euclid val_total val_second max_total max_second c)) cmf)"

text \<open>
  A row of \<open>peer_cluster\<close>. The label column (\<open>'Alvo Atual'\<close> against \<open>'Cidade Similar'\<close>,
  \<open>'Oportunidade Similar'\<close> or \<open>'Clone Comercial'\<close>) is the flag \<open>alvo_atual\<close>.
\<close>

record peer_row =
  city :: city_stats
  dist_euclidiana :: real
  alvo_atual :: bool

text \<open>
  \<open>sort_values('dist_euclidiana')\<close> sorts on one column with the library's default
  algorithm, which the call does not ask to be stable: the rows come back in ascending order
  of the key, and the order of rows with equal keys is the library's choice. The sort is
  therefore a parameter \<open>srt\<close> of the model, on the frame with its distance column, and
  \<open>sort_values_spec\<close> is all that is known of it: it permutes the rows and leaves the keys
  ascending.
\<close>

type_synonym sort_values = "(city_stats \<times> real) list \<Rightarrow> (city_stats \<times> real) list"

definition sort_values_spec :: "sort_values \<Rightarrow> bool" where
  "sort_values_spec srt = (\<forall>xs. mset (srt xs) = mset xs \<and> sorted (map snd (srt xs)))"

text \<open>
  Two sorts that meet it: the insertion sort, which keeps rows of equal key in their order in
  the frame, and a sort that returns them in the opposite order.
\<close>

definition stable_sort_values :: sort_values where
  "stable_sort_values xs = sort_key snd xs"

definition ties_reversed_sort_values :: sort_values where
  "ties_reversed_sort_values xs = rev (sort_key (\<lambda>x. - snd x) xs)"

text \<open>
  \<open>sort_values('dist_euclidiana').head(6)\<close> and the labelling. No result is produced when
  \<open>sel_stats\<close> is empty.
\<close>

definition peer_cluster :: "sort_values \<Rightarrow> city_stats list \<Rightarrow> string \<Rightarrow> peer_row list option" where
  "peer_cluster srt cmf sel_cidade =
     (case sel_stats cmf sel_cidade of
        [] \<Rightarrow> None
      | s # _ \<Rightarrow>
          Some (map (\<lambda>(c, d). \<lparr>city = c, dist_euclidiana = d, alvo_atual = (municipio c = sel_cidade)\<rparr>)
                    (take 6 (srt (with_dist cmf s)))))"

text \<open>The benchmarking computation of a dashboard: aggregate the state, then find the peers.\<close>

definition peer_finder ::
    "sort_values \<Rightarrow> app \<Rightarrow> dataframe \<Rightarrow> string \<Rightarrow> string \<Rightarrow> py_exception + peer_row list option" where
  "peer_finder srt a df sel_uf sel_cidade =
     (case city_matrix_full a df sel_uf of
        Inl e \<Rightarrow> Inl e
      | Inr cmf \<Rightarrow> Inr (peer_cluster srt cmf sel_cidade))"

section \<open>Lead Ranker\<close>

text \<open>
  \<open>sort_values(by=[...], ascending=[False, ...])\<close> on several columns is a stable
  lexicographic sort; descending order is ascending order of the negated keys. app3 always
  sorts on two keys; app4 and app5 add \<open>score_contato\<close> when the frame has that column.
\<close>

definition sort_capital_idade :: "company list \<Rightarrow> company list" where
  "sort_capital_idade rs = sort_key (\<lambda>r. (- capital_social r, - idade_empresa_anos r)) rs"

definition sort_capital_score_idade :: "company list \<Rightarrow> company list" where
  "sort_capital_score_idade rs =
     sort_key (\<lambda>r. (- capital_social r, - score_contato r, - idade_empresa_anos r)) rs"

definition df_leads :: "app \<Rightarrow> dataframe \<Rightarrow> company list" where
  "df_leads a df_filtered =
     (case a of
        TI \<Rightarrow> sort_capital_idade (rows df_filtered)
      | _ \<Rightarrow> if has_column df_filtered ''score_contato''
              then sort_capital_score_idade (rows df_filtered)
              else sort_capital_idade (rows df_filtered))"

text \<open>The two call sites: 50 rows on screen, 15 rows in the PDF report.\<close>

definition golden_leads_preview :: "app \<Rightarrow> dataframe \<Rightarrow> company list" where
  "golden_leads_preview a df_filtered = take 50 (df_leads a df_filtered)"

definition golden_leads_pdf :: "app \<Rightarrow> dataframe \<Rightarrow> company list" where
  "golden_leads_pdf a df_city = take 15 (df_leads a df_city)"

section \<open>KPI Calculator\<close>

text \<open>Python's \<open>/\<close> raises on a zero divisor.\<close>

definition true_div :: "real \<Rightarrow> real \<Rightarrow> py_exception + real" where
  "true_div x y = (if y = 0 then Inl ZeroDivisionError else Inr (x / y))"

text \<open>\<open>(vol / total * 100) if total > 0 else 0\<close>\<close>

definition percentage :: "nat \<Rightarrow> nat \<Rightarrow> py_exception + real" where
  "percentage vol tot =
     (if tot > 0
      then (case true_div (real vol) (real tot) of Inl e \<Rightarrow> Inl e | Inr q \<Rightarrow> Inr (q * 100))
      else Inr 0)"

fun startswith :: "string \<Rightarrow> string \<Rightarrow> bool" where
  "startswith s [] = True"
| "startswith [] (p # ps) = False"
| "startswith (c # cs) (p # ps) = (c = p \<and> startswith cs ps)"

fun contains :: "string \<Rightarrow> string \<Rightarrow> bool" where
  "contains [] p = (p = [])"
| "contains (c # cs) p = (startswith (c # cs) p \<or> contains cs p)"

definition perc_ltda :: "dataframe \<Rightarrow> py_exception + real" where
  "perc_ltda df_filtered =
     (if has_column df_filtered ''natureza_juridica''
      then percentage (length (filter (\<lambda>r. startswith (natureza_juridica r) ''2'') (rows df_filtered)))
                      (length (rows df_filtered))
      else Inr 0)"

definition high_ticket_perc :: "dataframe \<Rightarrow> py_exception + real" where
  "high_ticket_perc df_filtered =
     (if has_column df_filtered ''is_high_ticket''
      then percentage (agg_sum_flag is_high_ticket (rows df_filtered)) (length (rows df_filtered))
      else Inr 0)"

definition ouro_perc :: "dataframe \<Rightarrow> py_exception + real" where
  "ouro_perc df_filtered =
     (if has_column df_filtered ''qualidade_contato''
      then percentage (length (filter (\<lambda>r. qualidade_contato r = Some ''Ouro (Tel+Email)'')
                                      (rows df_filtered)))
                      (length (rows df_filtered))
      else Inr 0)"

definition alto_risco_perc :: "dataframe \<Rightarrow> py_exception + real" where
  "alto_risco_perc df_filtered =
     (if has_column df_filtered ''risco_operacional''
      then percentage (length (filter (\<lambda>r. case risco_operacional r of None \<Rightarrow> False
                                               | Some s \<Rightarrow> contains s ''Alto Risco'')
                                      (rows df_filtered)))
                      (length (rows df_filtered))
      else Inr 0)"

text \<open>The percentage indicators each dashboard computes.\<close>

definition percentage_kpis :: "app \<Rightarrow> dataframe \<Rightarrow> (py_exception + real) list" where
  "percentage_kpis a df_filtered =
     (case a of
        TI \<Rightarrow> [perc_ltda df_filtered]
      | Educacao \<Rightarrow> [high_ticket_perc df_filtered, ouro_perc df_filtered]
      | Construcao \<Rightarrow> [alto_risco_perc df_filtered, high_ticket_perc df_filtered])"

section \<open>Sidebar filters and the benchmarking tab\<close>

text \<open>
  What the user picks in the sidebar. \<open>sel_cidade\<close> is only asked for when a state is
  selected; the category multiselects are \<open>sel_porte\<close> (app3), \<open>sel_seg\<close> (app4, app5) and
  \<open>sel_tier\<close> (app4).
\<close>

record selection =
  sel_uf :: string
  sel_cidade :: string
  sel_porte :: "string list"
  sel_seg :: "string list"
  sel_tier :: "string list"

definition effective_cidade :: "selection \<Rightarrow> string" where
  "effective_cidade sel = (if sel_uf sel \<noteq> ''Todos'' then sel_cidade sel else ''Todas'')"

text \<open>\<open>Series.isin\<close>: a null cell is in no list of strings.\<close>

definition isin :: "string option \<Rightarrow> string list \<Rightarrow> bool" where
  "isin v vals = (case v of None \<Rightarrow> False | Some x \<Rightarrow> x \<in> set vals)"

definition geo_filter :: "company list \<Rightarrow> selection \<Rightarrow> company list" where
  "geo_filter rs sel =
     (if sel_uf sel \<noteq> ''Todos''
      then (let in_state = filter (\<lambda>r. uf_norm r = Some (sel_uf sel)) rs
            in if sel_cidade sel \<noteq> ''Todas''
               then filter (\<lambda>r. municipio_norm r = Some (sel_cidade sel)) in_state
               else in_state)
      else rs)"

text \<open>
  A multiselect filter on a category column: applied when the frame has the column and the
  selection is not empty.
\<close>

definition category_filter ::
    "dataframe \<Rightarrow> string \<Rightarrow> (company \<Rightarrow> string option) \<Rightarrow> string list \<Rightarrow> company list \<Rightarrow> company list" where
  "category_filter df name col chosen rs =
     (if has_column df name \<and> chosen \<noteq> [] then filter (\<lambda>r. isin (col r) chosen) rs else rs)"

definition sidebar_filters :: "app \<Rightarrow> dataframe \<Rightarrow> selection \<Rightarrow> dataframe" where
  "sidebar_filters a df sel =
     (let geo = geo_filter (rows df) sel
      in df\<lparr>rows :=
           (case a of
              TI \<Rightarrow> category_filter df ''porte_descricao_norm'' porte_descricao_norm (sel_porte sel) geo
            | Educacao \<Rightarrow>
                category_filter df ''tier_cliente'' tier_cliente (sel_tier sel)
                  (category_filter df ''segmento_educacional'' segmento (sel_seg sel) geo)
            | Construcao \<Rightarrow>
                category_filter df ''segmento_construcao'' segmento (sel_seg sel) geo)\<rparr>)"

text \<open>
  The outcome of \<open>main\<close> as far as the benchmarking chart is concerned: the page stops with
  a warning when the filtered frame is empty; the chart belongs to the branch where a city is
  selected; it is drawn only when the selected city has a row in the baseline.
\<close>

datatype benchmark =
    No_data
  | Other_view
  | Raised py_exception
  | Target_not_found
  | Peers "peer_row list"

definition benchmarking :: "sort_values \<Rightarrow> app \<Rightarrow> dataframe \<Rightarrow> selection \<Rightarrow> benchmark" where
  "benchmarking srt a df sel =
     (let df_filtered = sidebar_filters a df sel; cidade = effective_cidade sel
      in if rows df_filtered = [] then No_data
         else if cidade = ''Todas'' then Other_view
         else (case peer_finder srt a df (sel_uf sel) cidade of
                 Inl e \<Rightarrow> Raised e
               | Inr None \<Rightarrow> Target_not_found
               | Inr (Some peers) \<Rightarrow> Peers peers))"

section \<open>The other geographic views of app4 and app5\<close>

text \<open>
  The tier values that count as high ticket when the flag has to be derived. The accented
  letters are written as their UTF-8 bytes.
\<close>

definition premium_tiers :: "app \<Rightarrow> string list" where
  "premium_tiers a =
     (case a of
        Educacao \<Rightarrow> [''Corporate (Col'' @ [CHR 0xC3, CHR 0xA9] @ ''gios/Faculdades)'',
                     ''Key Account (Grupos Educacionais)'']
      | Construcao \<Rightarrow> [''Grande Porte (Incorporadora)'',
                       ''Infraestrutura / Obras P'' @ [CHR 0xC3, CHR 0xBA] @ ''blicas (>10M)'']
      | TI \<Rightarrow> [])"

text \<open>
  \<open>df_expansion\<close> of the national view: the state \<open>sp\<close> is left out when the data has it,
  and app4 and app5 add the column \<open>is_high_ticket\<close> when the frame lacks it, from
  \<open>tier_cliente\<close>. \<open>df.get('tier_cliente', '')\<close> is the string \<open>''\<close> when that column is
  absent too, and a string has no method \<open>isin\<close>.
\<close>

definition df_expansion :: "app \<Rightarrow> dataframe \<Rightarrow> py_exception + dataframe" where
  "df_expansion a df =
     (let kept = (if Some ''sp'' \<in> set (map uf_norm (rows df))
                  then filter (\<lambda>r. uf_norm r \<noteq> Some ''sp'') (rows df) else rows df)
      in if a = TI \<or> has_column df ''is_high_ticket'' then Inr (df\<lparr>rows := kept\<rparr>)
         else if has_column df ''tier_cliente''
         then Inr (df\<lparr>rows := map (\<lambda>r. r\<lparr>is_high_ticket := isin (tier_cliente r) (premium_tiers a)\<rparr>) kept,
                     columns := columns df @ [''is_high_ticket'']\<rparr>)
         else Inl (AttributeError ''isin''))"

text \<open>
  \<open>city_matrix\<close> of the state view of app4 and app5, as aggregated (before it is sorted and
  cut to 20 rows): three aggregations per city, the flag column named without a test.
\<close>

record city_matrix_row =
  cm_municipio :: string
  total_empresas :: real
  leads_high_ticket :: real
  idade_media_anos :: real

definition city_matrix :: "dataframe \<Rightarrow> py_exception + city_matrix_row list" where
  "city_matrix df_filtered =
     (if has_column df_filtered ''is_high_ticket''
      then Inr (map (\<lambda>(k, g). \<lparr>cm_municipio = k, total_empresas = real (agg_count cnpj_completo g),
                                leads_high_ticket = real (agg_sum_flag is_high_ticket g),
                                idade_media_anos = agg_mean idade_empresa_anos g\<rparr>)
                    (groupby municipio_norm (rows df_filtered)))
      else Inl (KeyError ''is_high_ticket''))"


section \<open>Sample baselines\<close>

text \<open>
  The baseline of the scenario of the specification (metrics: count and mean age), and a
  baseline of seven cities with one firm each, all of the same age.
\<close>

definition scenario_baseline :: "city_stats list" where
  "scenario_baseline = [\<lparr>municipio = ''A'', total = 10, second = 2\<rparr>,
                        \<lparr>municipio = ''B'', total = 4, second = 8\<rparr>,
                        \<lparr>municipio = ''C'', total = 10, second = 2\<rparr>]"

definition seven_baseline :: "city_stats list" where
  "seven_baseline = map (\<lambda>k. \<lparr>municipio = k, total = 1, second = 5\<rparr>)
                        [''a'', ''b'', ''c'', ''d'', ''e'', ''f'', ''g'']"


text \<open>
  A sample row, and a frame of seven firms of the state \<open>sp\<close>, one per city, that differ in
  their city only.
\<close>

definition sample_company :: company where
  "sample_company =
     \<lparr>cnpj_completo = Some ''00000000000191'', uf_norm = Some ''sp'', municipio_norm = Some ''a'',
      capital_social = 1000, idade_empresa_anos = 5, score_contato = 0, is_high_ticket = False,
      tier_cliente = None, porte_descricao_norm = None, segmento = None,
      natureza_juridica = ''2062'', qualidade_contato = None, risco_operacional = None\<rparr>"

definition seven_towns :: dataframe where
  "seven_towns =
     \<lparr>rows = map (\<lambda>k. sample_company\<lparr>municipio_norm := Some k\<rparr>)
                  [''g'', ''a'', ''b'', ''c'', ''d'', ''e'', ''f''],
      columns = [''cnpj_completo'', ''uf_norm'', ''municipio_norm'', ''capital_social'',
                 ''idade_empresa_anos'']\<rparr>"


text \<open>A population of two firms, one of them without a city.\<close>

definition two_firms_one_without_city :: "company list" where
  "two_firms_one_without_city = [sample_company, sample_company\<lparr>municipio_norm := None\<rparr>]"

section \<open>The Lead Ranker's order, in the words of the specification\<close>

text \<open>
  The comparator of the specification: higher capital first, then higher contact score, then
  higher age; and the same with the contact score left out.
\<close>

definition spec_before_three_keys :: "company \<Rightarrow> company \<Rightarrow> bool" where
  "spec_before_three_keys x y =
     (capital_social x > capital_social y
      \<or> (capital_social x = capital_social y
          \<and> (score_contato x > score_contato y
              \<or> (score_contato x = score_contato y
                  \<and> idade_empresa_anos x \<ge> idade_empresa_anos y))))"

definition spec_before_two_keys :: "company \<Rightarrow> company \<Rightarrow> bool" where
  "spec_before_two_keys x y =
     (capital_social x > capital_social y
      \<or> (capital_social x = capital_social y \<and> idade_empresa_anos x \<ge> idade_empresa_anos y))"

text \<open>
  Three firms: two share the highest capital and differ in contact score and age. The same
  rows in a frame that has no column \<open>score_contato\<close>.
\<close>

definition ranked_sample :: dataframe where
  "ranked_sample =
     \<lparr>rows = [sample_company\<lparr>cnpj_completo := Some ''1'', capital_social := 500, score_contato := 60, idade_empresa_anos := 9\<rparr>,
              sample_company\<lparr>cnpj_completo := Some ''2'', capital_social := 900, score_contato := 60, idade_empresa_anos := 7\<rparr>,
              sample_company\<lparr>cnpj_completo := Some ''3'', capital_social := 900, score_contato := 90, idade_empresa_anos := 3\<rparr>],
      columns = [''cnpj_completo'', ''capital_social'', ''idade_empresa_anos'', ''score_contato'']\<rparr>"

definition ranked_sample_without_score :: dataframe where
  "ranked_sample_without_score =
     ranked_sample\<lparr>columns := [''cnpj_completo'', ''capital_social'', ''idade_empresa_anos'']\<rparr>"


text \<open>
  Four firms with the columns the indicators read, and the same frame without any row.
\<close>

definition kpi_sample :: dataframe where
  "kpi_sample =
     \<lparr>rows = [sample_company,
              sample_company\<lparr>natureza_juridica := ''2135'', is_high_ticket := True,
                             qualidade_contato := Some ''Ouro (Tel+Email)''\<rparr>,
              sample_company\<lparr>natureza_juridica := ''1015'',
                             risco_operacional := Some ''Canteiro - Alto Risco''\<rparr>,
              sample_company\<lparr>natureza_juridica := ''3999''\<rparr>],
      columns = [''cnpj_completo'', ''natureza_juridica'', ''is_high_ticket'',
                 ''qualidade_contato'', ''risco_operacional'']\<rparr>"

definition empty_frame :: dataframe where
  "empty_frame = kpi_sample\<lparr>rows := []\<rparr>"


text \<open>
  An education frame that carries \<open>tier_cliente\<close> but no column \<open>is_high_ticket\<close>.
\<close>

definition frame_without_flag :: dataframe where
  "frame_without_flag =
     \<lparr>rows = [sample_company\<lparr>tier_cliente := Some ''Key Account (Grupos Educacionais)''\<rparr>,
              sample_company\<lparr>uf_norm := Some ''rj'', tier_cliente := Some ''Micro (Varejo)''\<rparr>,
              sample_company\<lparr>uf_norm := Some ''rj'',
                             tier_cliente := Some ''Key Account (Grupos Educacionais)''\<rparr>],
      columns = [''cnpj_completo'', ''uf_norm'', ''municipio_norm'', ''capital_social'',
                 ''idade_empresa_anos'', ''tier_cliente'']\<rparr>"

text \<open>Sidebar selections: a state alone, and a city of that state.\<close>

definition state_sp :: selection where
  "state_sp = \<lparr>sel_uf = ''sp'', sel_cidade = ''Todas'', sel_porte = [], sel_seg = [], sel_tier = []\<rparr>"

definition city_a :: selection where
  "city_a = state_sp\<lparr>sel_cidade := ''a''\<rparr>"

text \<open>Two firms of one state, in two cities, of different size classes.\<close>

definition two_portes :: dataframe where
  "two_portes =
     \<lparr>rows = [sample_company\<lparr>porte_descricao_norm := Some ''micro empresa''\<rparr>,
              sample_company\<lparr>municipio_norm := Some ''b'', idade_empresa_anos := 9,
                             porte_descricao_norm := Some ''demais''\<rparr>],
      columns = [''cnpj_completo'', ''uf_norm'', ''municipio_norm'', ''capital_social'',
                 ''idade_empresa_anos'', ''porte_descricao_norm'']\<rparr>"


section \<open>Properties of the Normalizer\<close>

lemma scale_max_pos: "0 < scale_max vs"
  by (simp add: scale_max_def)

text \<open>
  Claim C5. For a non-empty baseline column of non-negative metric values (counts, flag sums,
  mean ages of firms with non-negative age), the scale factor is the column's maximum, and 1
  when that maximum is 0; it is never 0, so the division is always defined. When the maximum
  is 0 the normalized value of any \<open>v\<close> is \<open>v\<close> itself; every baseline value normalizes
  into the interval from 0 to 1; and a baseline value reaching a positive maximum normalizes
  to exactly 1.
\<close>

theorem normalizer_scale_policy:
  assumes ne: "vs \<noteq> []" and nonneg: "\<forall>v \<in> set vs. 0 \<le> v"
  shows "scale_max vs = (if Max (set vs) = 0 then 1 else Max (set vs))
       \<and> scale_max vs \<noteq> 0
       \<and> (Max (set vs) = 0 \<longrightarrow> (\<forall>v. normalized vs v = v))
       \<and> (\<forall>v \<in> set vs. 0 \<le> normalized vs v \<and> normalized vs v \<le> 1)
       \<and> (\<forall>v \<in> set vs. v = Max (set vs) \<and> 0 < v \<longrightarrow> normalized vs v = 1)"
proof -
  have mem: "Max (set vs) \<in> set vs" using ne by simp
  then have mx0: "0 \<le> Max (set vs)" using nonneg by blast
  have s: "scale_max vs = (if Max (set vs) = 0 then 1 else Max (set vs))"
    using ne mx0 by (auto simp: scale_max_def)
  have p: "0 < scale_max vs" by (rule scale_max_pos)
  have ub: "\<And>v. v \<in> set vs \<Longrightarrow> v \<le> scale_max vs"
  proof -
    fix v assume v: "v \<in> set vs"
    then have le: "v \<le> Max (set vs)" by simp
    show "v \<le> scale_max vs"
    proof (cases "Max (set vs) = 0")
      case True then show ?thesis using le s by simp
    next
      case False then show ?thesis using le s by simp
    qed
  qed
  have c3: "Max (set vs) = 0 \<longrightarrow> (\<forall>v. normalized vs v = v)"
    using s by (simp add: normalized_def)
  have c4: "\<forall>v \<in> set vs. 0 \<le> normalized vs v \<and> normalized vs v \<le> 1"
    using nonneg ub p by (simp add: normalized_def)
  have c5: "\<forall>v \<in> set vs. v = Max (set vs) \<and> 0 < v \<longrightarrow> normalized vs v = 1"
    using s by (auto simp: normalized_def)
  show ?thesis using s p c3 c4 c5 by simp
qed

theorem normalizer_scale_policy_witness:
  "scale_max [0, 0] = 1 \<and> normalized [0, 0] 7 = 7 \<and> scale_max [4, 10, 10] = 10
   \<and> normalized [4, 10, 10] 10 = 1 \<and> normalized [4, 10, 10] 4 \<le> 1"
proof -
  have a: "[0, 0::real] \<noteq> [] \<and> (\<forall>v \<in> set [0, 0::real]. 0 \<le> v)" by simp
  have b: "[4, 10, 10::real] \<noteq> [] \<and> (\<forall>v \<in> set [4, 10, 10::real]. 0 \<le> v)" by simp
  show ?thesis
    using normalizer_scale_policy [of "[0, 0]"] normalizer_scale_policy [of "[4, 10, 10]"] a b
    by simp
qed

section \<open>Properties of the Peer Finder\<close>

lemma stable_sort_values_spec: "sort_values_spec stable_sort_values"
  by (simp add: sort_values_spec_def stable_sort_values_def)

lemma ties_reversed_sort_values_spec: "sort_values_spec ties_reversed_sort_values"
proof -
  have "sorted (map snd (rev (sort_key (\<lambda>x. - snd x) xs)))" for xs :: "(city_stats \<times> real) list"
  proof -
    have "sorted (map (\<lambda>x. - snd x) (sort_key (\<lambda>x. - snd x) xs))" by (rule sorted_sort_key)
    then have "sorted_wrt (\<lambda>x y. - snd x \<le> - snd y) (sort_key (\<lambda>x. - snd x) xs)"
      by (simp only: sorted_map)
    then have "sorted_wrt (\<lambda>x y. snd y \<le> snd x) (sort_key (\<lambda>x. - snd x) xs)" by simp
    then have "sorted_wrt (\<lambda>x y. snd x \<le> snd y) (rev (sort_key (\<lambda>x. - snd x) xs))"
      by (simp only: sorted_wrt_rev)
    then show ?thesis by (simp only: sorted_map)
  qed
  then show ?thesis by (simp add: sort_values_spec_def ties_reversed_sort_values_def)
qed

lemma sorted_rows:
  assumes "sort_values_spec srt"
  shows "mset (srt xs) = mset xs" and "sorted (map snd (srt xs))"
    and "set (srt xs) = set xs" and "length (srt xs) = length xs"
proof -
  show m: "mset (srt xs) = mset xs" using assms by (simp add: sort_values_spec_def)
  show "sorted (map snd (srt xs))" using assms by (simp add: sort_values_spec_def)
  show "set (srt xs) = set xs" using m by (rule mset_eq_setD)
  show "length (srt xs) = length xs" using m by (rule mset_eq_length)
qed

lemma sorted_take_le_drop:
  assumes "sorted (map f ys)" and "x \<in> set (take n ys)" and "y \<in> set (drop n ys)"
  shows "f x \<le> f y"
proof -
  have e: "map f ys = map f (take n ys) @ map f (drop n ys)"
    by (simp only: map_append [symmetric] append_take_drop_id)
  have "sorted (map f (take n ys) @ map f (drop n ys))"
    using assms(1) by (simp only: e [symmetric])
  then have "\<forall>a \<in> set (map f (take n ys)). \<forall>b \<in> set (map f (drop n ys)). a \<le> b"
    unfolding sorted_append by blast
  then show ?thesis using assms(2,3) by simp
qed

lemma peer_cluster_found:
  assumes "sel_stats cmf sel = t # ts"
  shows "peer_cluster srt cmf sel =
         Some (map (\<lambda>(c, d). \<lparr>city = c, dist_euclidiana = d, alvo_atual = (municipio c = sel)\<rparr>)
                   (take 6 (srt (with_dist cmf t))))"
  using assms by (simp add: peer_cluster_def)

lemma dist_of_labelled:
  "map dist_euclidiana (map (\<lambda>(c, d). \<lparr>city = c, dist_euclidiana = d, alvo_atual = f c\<rparr>) xs) = map snd xs"
  by (induction xs) auto

lemma city_of_labelled:
  "map city (map (\<lambda>(c, d). \<lparr>city = c, dist_euclidiana = d, alvo_atual = f c\<rparr>) xs) = map fst xs"
  by (induction xs) auto

lemma unlabel:
  "map (\<lambda>p. (city p, dist_euclidiana p))
       (map (\<lambda>(c, d). \<lparr>city = c, dist_euclidiana = d, alvo_atual = f c\<rparr>) xs) = xs"
  by (induction xs) auto

lemma length_with_dist: "length (with_dist cmf t) = length cmf"
  by (simp add: with_dist_def Let_def)

lemma fst_with_dist: "map fst (with_dist cmf t) = cmf"
  by (simp add: with_dist_def Let_def comp_def)

lemma euclid_nonneg: "0 \<le> euclid a b c d g"
  by (simp add: euclid_def)

lemma snd_with_dist_nonneg: "x \<in> set (with_dist cmf t) \<Longrightarrow> 0 \<le> snd x"
  by (auto simp: with_dist_def Let_def euclid_nonneg)

text \<open>
  Claim C4. Whenever the selected city has a row in the baseline, and whatever order the sort
  gives to ties, the Peer Finder returns a result that is sorted ascending by distance, in
  which every distance is at least 0, and whose length is the minimum of 6 and the number of
  groups of the baseline. Its rows are rows of the baseline with their computed distances,
  each taken as often as it occurs there: together with the rows left out they make up the
  whole baseline; no row left out is nearer than a row of the result; nothing is left out
  when the baseline has at most 6 groups; and the row of the selected city is the one tagged
  as target.
\<close>

theorem peer_cluster_sorted_bounded:
  assumes spec: "sort_values_spec srt" and found: "sel_stats cmf sel \<noteq> []"
  shows "\<exists>res rest. peer_cluster srt cmf sel = Some res
             \<and> sorted (map dist_euclidiana res)
             \<and> (\<forall>p \<in> set res. 0 \<le> dist_euclidiana p)
             \<and> length res = min 6 (length cmf)
             \<and> map fst (with_dist cmf (hd (sel_stats cmf sel))) = cmf
             \<and> mset (map (\<lambda>p. (city p, dist_euclidiana p)) res) + mset rest
                 = mset (with_dist cmf (hd (sel_stats cmf sel)))
             \<and> (\<forall>p \<in> set res. \<forall>x \<in> set rest. dist_euclidiana p \<le> snd x)
             \<and> (length cmf \<le> 6 \<longrightarrow> rest = [])
             \<and> (\<forall>p \<in> set res. alvo_atual p = (municipio (city p) = sel))"
proof -
  obtain t ts where t: "sel_stats cmf sel = t # ts"
    using found by (cases "sel_stats cmf sel") auto
  have hd: "hd (sel_stats cmf sel) = t" using t by simp
  let ?ys = "srt (with_dist cmf t)"
  let ?top = "take 6 ?ys"
  let ?rest = "drop 6 ?ys"
  let ?res = "map (\<lambda>(c, d). \<lparr>city = c, dist_euclidiana = d, alvo_atual = (municipio c = sel)\<rparr>) ?top"
  have r: "peer_cluster srt cmf sel = Some ?res" by (rule peer_cluster_found [OF t])
  have d: "map dist_euclidiana ?res = map snd ?top" by (rule dist_of_labelled)
  have u: "map (\<lambda>p. (city p, dist_euclidiana p)) ?res = ?top" by (rule unlabel)
  have srt_sorted: "sorted (map snd ?ys)" by (rule sorted_rows(2) [OF spec])
  then have "sorted (take 6 (map snd ?ys))" by (rule sorted_wrt_take)
  then have "sorted (map snd ?top)" by (simp only: take_map)
  then have s: "sorted (map dist_euclidiana ?res)" by (simp only: d)
  have "\<forall>x \<in> set ?top. 0 \<le> snd x"
  proof
    fix x assume "x \<in> set ?top"
    then have "x \<in> set ?ys" by (rule in_set_takeD)
    then have "x \<in> set (with_dist cmf t)" by (simp only: sorted_rows(3) [OF spec])
    then show "0 \<le> snd x" by (rule snd_with_dist_nonneg)
  qed
  then have "\<forall>v \<in> set (map snd ?top). 0 \<le> v" by simp
  then have "\<forall>v \<in> set (map dist_euclidiana ?res). 0 \<le> v" by (simp only: d)
  then have n: "\<forall>p \<in> set ?res. 0 \<le> dist_euclidiana p" by simp
  have l: "length ?res = min 6 (length cmf)"
    by (simp add: sorted_rows(4) [OF spec] length_with_dist min.commute)
  have f: "map fst (with_dist cmf (hd (sel_stats cmf sel))) = cmf"
    by (rule fst_with_dist)
  have "mset ?top + mset ?rest = mset ?ys"
    by (simp only: mset_append [symmetric] append_take_drop_id)
  then have "mset ?top + mset ?rest = mset (with_dist cmf t)"
    by (simp only: sorted_rows(1) [OF spec])
  then have m: "mset (map (\<lambda>p. (city p, dist_euclidiana p)) ?res) + mset ?rest
                  = mset (with_dist cmf (hd (sel_stats cmf sel)))"
    by (simp only: u hd)
  have "\<forall>x \<in> set ?top. \<forall>y \<in> set ?rest. snd x \<le> snd y"
    using sorted_take_le_drop [OF srt_sorted] by blast
  then have "\<forall>v \<in> set (map snd ?top). \<forall>y \<in> set ?rest. v \<le> snd y" by simp
  then have "\<forall>v \<in> set (map dist_euclidiana ?res). \<forall>y \<in> set ?rest. v \<le> snd y"
    by (simp only: d)
  then have near: "\<forall>p \<in> set ?res. \<forall>x \<in> set ?rest. dist_euclidiana p \<le> snd x" by simp
  have all: "length cmf \<le> 6 \<longrightarrow> ?rest = []"
    by (simp add: sorted_rows(4) [OF spec] length_with_dist)
  have tag: "\<forall>p \<in> set ?res. alvo_atual p = (municipio (city p) = sel)"
    by (auto simp: case_prod_unfold)
  show ?thesis using r s n l f m near all tag by blast
qed

theorem peer_cluster_sorted_bounded_witness:
  "sel_stats seven_baseline ''g'' \<noteq> []
   \<and> (\<exists>res rest. peer_cluster stable_sort_values seven_baseline ''g'' = Some res
             \<and> sorted (map dist_euclidiana res)
             \<and> length res = 6 \<and> length rest = 1
             \<and> mset (map (\<lambda>p. (city p, dist_euclidiana p)) res) + mset rest
                 = mset (with_dist seven_baseline (hd (sel_stats seven_baseline ''g''))))
   \<and> (\<exists>res. peer_cluster ties_reversed_sort_values scenario_baseline ''C'' = Some res
             \<and> length res = 3
             \<and> mset (map (\<lambda>p. (city p, dist_euclidiana p)) res)
                 = mset (with_dist scenario_baseline (hd (sel_stats scenario_baseline ''C''))))"
proof -
  have a: "sel_stats seven_baseline ''g'' \<noteq> []"
    by (simp add: sel_stats_def seven_baseline_def)
  have b: "sel_stats scenario_baseline ''C'' \<noteq> []"
    by (simp add: sel_stats_def scenario_baseline_def)
  have l7: "min 6 (length seven_baseline) = 6" by (simp add: seven_baseline_def)
  have l3: "min 6 (length scenario_baseline) = 3 \<and> length scenario_baseline \<le> 6"
    by (simp add: scenario_baseline_def)
  obtain res rest where r: "peer_cluster stable_sort_values seven_baseline ''g'' = Some res"
      "sorted (map dist_euclidiana res)" "length res = min 6 (length seven_baseline)"
      "mset (map (\<lambda>p. (city p, dist_euclidiana p)) res) + mset rest
         = mset (with_dist seven_baseline (hd (sel_stats seven_baseline ''g'')))"
    using peer_cluster_sorted_bounded [OF stable_sort_values_spec a] by blast
  have "length (map (\<lambda>p. (city p, dist_euclidiana p)) res) + length rest
          = length (with_dist seven_baseline (hd (sel_stats seven_baseline ''g'')))"
    using r(4) by (metis size_mset size_union)
  then have lr: "length rest = 1" using r(3) l7 by (simp add: length_with_dist seven_baseline_def)
  have l6: "length res = 6" using r(3) l7 by simp
  have one: "\<exists>res rest. peer_cluster stable_sort_values seven_baseline ''g'' = Some res
             \<and> sorted (map dist_euclidiana res) \<and> length res = 6 \<and> length rest = 1
             \<and> mset (map (\<lambda>p. (city p, dist_euclidiana p)) res) + mset rest
                 = mset (with_dist seven_baseline (hd (sel_stats seven_baseline ''g'')))"
    using r(1,2,4) l6 lr by blast
  obtain res' rest' where r': "peer_cluster ties_reversed_sort_values scenario_baseline ''C'' = Some res'"
      "length res' = min 6 (length scenario_baseline)"
      "mset (map (\<lambda>p. (city p, dist_euclidiana p)) res') + mset rest'
         = mset (with_dist scenario_baseline (hd (sel_stats scenario_baseline ''C'')))"
      "length scenario_baseline \<le> 6 \<longrightarrow> rest' = []"
    using peer_cluster_sorted_bounded [OF ties_reversed_sort_values_spec b] by blast
  then have two: "\<exists>res. peer_cluster ties_reversed_sort_values scenario_baseline ''C'' = Some res
             \<and> length res = 3
             \<and> mset (map (\<lambda>p. (city p, dist_euclidiana p)) res)
                 = mset (with_dist scenario_baseline (hd (sel_stats scenario_baseline ''C'')))"
    using l3 by auto
  show ?thesis using a one two by blast
qed

text \<open>
  Claim C1. With \<open>t\<close> the target's row, the distance column holds, for every group \<open>g\<close> of
  the baseline, the square root of the sum of the squares of the two metric differences to
  the target, each divided by the scale of its metric; every row of the result carries that
  distance for its city, whatever order the sort gives to ties. The two scales are terms of
  the baseline alone, the same for every candidate, and each is the baseline's maximum of its
  metric whenever that maximum is positive (a maximum of 0 is replaced by 1, see the
  Normalizer).
\<close>

theorem peer_distance_formula:
  assumes spec: "sort_values_spec srt" and t: "sel_stats cmf sel = t # ts"
  shows "map snd (with_dist cmf t) =
           map (\<lambda>g. sqrt (((total g - total t) / scale_max (map total cmf))\<^sup>2
                         + ((second g - second t) / scale_max (map second cmf))\<^sup>2)) cmf
       \<and> (\<exists>res. peer_cluster srt cmf sel = Some res
              \<and> (\<forall>p \<in> set res. city p \<in> set cmf
                    \<and> dist_euclidiana p =
                        sqrt (((total (city p) - total t) / scale_max (map total cmf))\<^sup>2
                            + ((second (city p) - second t) / scale_max (map second cmf))\<^sup>2)))
       \<and> (0 < Max (set (map total cmf)) \<longrightarrow> scale_max (map total cmf) = Max (set (map total cmf)))
       \<and> (0 < Max (set (map second cmf)) \<longrightarrow> scale_max (map second cmf) = Max (set (map second cmf)))"
proof -
  let ?f = "\<lambda>g. sqrt (((total g - total t) / scale_max (map total cmf))\<^sup>2
                         + ((second g - second t) / scale_max (map second cmf))\<^sup>2)"
  have wd: "with_dist cmf t = map (\<lambda>g. (g, ?f g)) cmf"
    by (simp add: with_dist_def Let_def euclid_def)
  have c1: "map snd (with_dist cmf t) = map ?f cmf"
    by (simp add: wd comp_def)
  let ?top = "take 6 (srt (with_dist cmf t))"
  let ?res = "map (\<lambda>(c, d). \<lparr>city = c, dist_euclidiana = d, alvo_atual = (municipio c = sel)\<rparr>) ?top"
  have r: "peer_cluster srt cmf sel = Some ?res" by (rule peer_cluster_found [OF t])
  have top: "\<And>x. x \<in> set ?top \<Longrightarrow> fst x \<in> set cmf \<and> snd x = ?f (fst x)"
  proof -
    fix x assume "x \<in> set ?top"
    then have "x \<in> set (srt (with_dist cmf t))" by (rule in_set_takeD)
    then have "x \<in> set (with_dist cmf t)" by (simp only: sorted_rows(3) [OF spec])
    then have "x \<in> set (map (\<lambda>g. (g, ?f g)) cmf)" by (simp only: wd)
    then show "fst x \<in> set cmf \<and> snd x = ?f (fst x)" by auto
  qed
  have c2: "\<forall>p \<in> set ?res. city p \<in> set cmf \<and> dist_euclidiana p = ?f (city p)"
  proof
    fix p assume "p \<in> set ?res"
    then obtain x where x: "x \<in> set ?top"
      and p: "p = (case x of (c, d) \<Rightarrow> \<lparr>city = c, dist_euclidiana = d, alvo_atual = (municipio c = sel)\<rparr>)"
      by auto
    have "city p = fst x" "dist_euclidiana p = snd x" using p by (simp_all add: case_prod_unfold)
    then show "city p \<in> set cmf \<and> dist_euclidiana p = ?f (city p)" using top [OF x] by simp
  qed
  have ne: "cmf \<noteq> []" using t by (auto simp: sel_stats_def)
  have c3: "0 < Max (set (map total cmf)) \<longrightarrow> scale_max (map total cmf) = Max (set (map total cmf))"
    using ne by (simp add: scale_max_def)
  have c4: "0 < Max (set (map second cmf)) \<longrightarrow> scale_max (map second cmf) = Max (set (map second cmf))"
    using ne by (simp add: scale_max_def)
  show ?thesis using c1 r c2 c3 c4 by blast
qed

theorem peer_distance_formula_witness:
  "sel_stats scenario_baseline ''C'' = [\<lparr>municipio = ''C'', total = 10, second = 2\<rparr>]
   \<and> map snd (with_dist scenario_baseline \<lparr>municipio = ''C'', total = 10, second = 2\<rparr>)
       = [0, sqrt (((4 - 10) / 10)\<^sup>2 + ((8 - 2) / 8)\<^sup>2), 0]
   \<and> scale_max (map total scenario_baseline) = 10
   \<and> scale_max (map second scenario_baseline) = 8"
proof -
  have a: "sel_stats scenario_baseline ''C'' = \<lparr>municipio = ''C'', total = 10, second = 2\<rparr> # []"
    by (simp add: sel_stats_def scenario_baseline_def)
  note f = peer_distance_formula [OF stable_sort_values_spec a]
  have m1: "Max (set (map total scenario_baseline)) = 10"
    by (simp add: scenario_baseline_def)
  have m2: "Max (set (map second scenario_baseline)) = 8"
    by (simp add: scenario_baseline_def)
  have s1: "scale_max (map total scenario_baseline) = 10"
    using f m1 by simp
  have s2: "scale_max (map second scenario_baseline) = 8"
    using f m2 by simp
  have "map snd (with_dist scenario_baseline \<lparr>municipio = ''C'', total = 10, second = 2\<rparr>)
       = map (\<lambda>g. sqrt (((total g - 10) / 10)\<^sup>2 + ((second g - 2) / 8)\<^sup>2)) scenario_baseline"
    using f s1 s2 by simp
  then show ?thesis using a s1 s2 by (simp add: scenario_baseline_def)
qed

lemma seven_towns_baseline: "city_matrix_full TI seven_towns ''sp'' = Inr seven_baseline"
  by (simp add: city_matrix_full_def city_matrix_idade_def df_state_baseline_def seven_towns_def
      sample_company_def groupby_def group_keys_def List.map_filter_def agg_count_def agg_mean_def
      seven_baseline_def)

lemma seven_sel_stats:
  "c \<in> set seven_baseline \<Longrightarrow> sel_stats seven_baseline (municipio c) = [c]"
  by (auto simp: sel_stats_def seven_baseline_def)

lemma seven_with_dist:
  "c \<in> set seven_baseline \<Longrightarrow> with_dist seven_baseline c = map (\<lambda>g. (g, 0)) seven_baseline"
  by (auto simp: with_dist_def seven_baseline_def euclid_def Let_def)

lemma seven_keys_inj:
  "c \<in> set seven_baseline \<Longrightarrow> c' \<in> set seven_baseline \<Longrightarrow> municipio c' = municipio c \<Longrightarrow> c' = c"
  by (auto simp: seven_baseline_def)

lemma seven_stable_order:
  "map_sum id (map_option (map (\<lambda>p. (municipio (city p), dist_euclidiana p, alvo_atual p))))
     (peer_finder stable_sort_values TI seven_towns ''sp'' ''g'')
   = Inr (Some [(''a'', 0, False), (''b'', 0, False), (''c'', 0, False), (''d'', 0, False),
                (''e'', 0, False), (''f'', 0, False)])"
  by (simp add: peer_finder_def seven_towns_baseline peer_cluster_def sel_stats_def
      seven_baseline_def with_dist_def Let_def scale_max_def euclid_def stable_sort_values_def)

lemma target_distance_zero: "euclid (total t) (second t) m1 m2 t = 0"
  by (simp add: euclid_def)

text \<open>
  Claim C3 (evaluation at the failing input). Seven cities of one state, one firm each and
  all of the same age, so that every city is at distance 0 from every other. Whatever order
  the sort gives to the seven tied rows, one of the seven cities can be selected for which the
  six rows kept, all at distance 0, do not include the selected city itself, and no row is
  tagged as target.
\<close>

theorem target_cut_by_ties:
  assumes spec: "sort_values_spec srt"
  shows "\<exists>k res. k \<in> set [''a'', ''b'', ''c'', ''d'', ''e'', ''f'', ''g'']
           \<and> peer_finder srt TI seven_towns ''sp'' k = Inr (Some res)
           \<and> length res = 6
           \<and> (\<forall>p \<in> set res. dist_euclidiana p = 0 \<and> \<not> alvo_atual p)
           \<and> k \<notin> set (map (municipio \<circ> city) res)"
proof -
  let ?wd = "map (\<lambda>g. (g, 0::real)) seven_baseline"
  let ?ys = "srt ?wd"
  have len: "length ?ys = 7" by (simp add: sorted_rows(4) [OF spec] seven_baseline_def)
  have dwd: "distinct ?wd" by (simp add: seven_baseline_def)
  have "distinct ?ys"
    using mset_eq_imp_distinct_iff [OF sorted_rows(1) [OF spec, of ?wd]] dwd by simp
  then have disj: "set (take 6 ?ys) \<inter> set (drop 6 ?ys) = {}"
    by (rule set_take_disj_set_drop_if_distinct) simp
  have "drop 6 ?ys \<noteq> []" using len by simp
  then obtain x where xd: "x \<in> set (drop 6 ?ys)" by (cases "drop 6 ?ys") auto
  then have xn: "x \<notin> set (take 6 ?ys)" using disj by blast
  have "x \<in> set ?ys" using xd by (rule in_set_dropD)
  then have "x \<in> set ?wd" by (simp only: sorted_rows(3) [OF spec])
  then obtain c where c: "c \<in> set seven_baseline" and x: "x = (c, 0)" by auto
  let ?k = "municipio c"
  let ?res = "map (\<lambda>(c, d). \<lparr>city = c, dist_euclidiana = d, alvo_atual = (municipio c = ?k)\<rparr>)
                  (take 6 ?ys)"
  have k: "?k \<in> set [''a'', ''b'', ''c'', ''d'', ''e'', ''f'', ''g'']"
    using c by (auto simp: seven_baseline_def)
  have "peer_cluster srt seven_baseline ?k = Some ?res"
    using peer_cluster_found [OF seven_sel_stats [OF c], of srt] by (simp only: seven_with_dist [OF c])
  then have r: "peer_finder srt TI seven_towns ''sp'' ?k = Inr (Some ?res)"
    by (simp add: peer_finder_def seven_towns_baseline)
  have l: "length ?res = 6" using len by simp
  have rows: "\<And>y. y \<in> set (take 6 ?ys) \<Longrightarrow> snd y = 0 \<and> municipio (fst y) \<noteq> ?k"
  proof -
    fix y assume y: "y \<in> set (take 6 ?ys)"
    then have "y \<in> set ?ys" by (rule in_set_takeD)
    then have "y \<in> set ?wd" by (simp only: sorted_rows(3) [OF spec])
    then obtain c' where c': "c' \<in> set seven_baseline" and ye: "y = (c', 0)" by auto
    have "c' \<noteq> c" using y xn x ye by auto
    then have "municipio c' \<noteq> ?k" using seven_keys_inj [OF c c'] by blast
    then show "snd y = 0 \<and> municipio (fst y) \<noteq> ?k" using ye by simp
  qed
  have z: "\<forall>p \<in> set ?res. dist_euclidiana p = 0 \<and> \<not> alvo_atual p"
    using rows by (auto simp: case_prod_unfold)
  have e: "map (municipio \<circ> city) ?res = map (municipio \<circ> fst) (take 6 ?ys)"
    by (simp only: map_map [symmetric] city_of_labelled)
  have "?k \<notin> set (map (municipio \<circ> fst) (take 6 ?ys))"
  proof
    assume "?k \<in> set (map (municipio \<circ> fst) (take 6 ?ys))"
    then obtain y where "y \<in> set (take 6 ?ys)" and "municipio (fst y) = ?k" by auto
    then show False using rows by blast
  qed
  then have nk: "?k \<notin> set (map (municipio \<circ> city) ?res)" unfolding e .
  show ?thesis using k r l z nk by blast
qed

theorem target_cut_by_ties_witness:
  "(\<exists>k res. k \<in> set [''a'', ''b'', ''c'', ''d'', ''e'', ''f'', ''g'']
           \<and> peer_finder stable_sort_values TI seven_towns ''sp'' k = Inr (Some res)
           \<and> length res = 6
           \<and> k \<notin> set (map (municipio \<circ> city) res))
   \<and> map_sum id (map_option (map (municipio \<circ> city)))
        (peer_finder stable_sort_values TI seven_towns ''sp'' ''g'')
      = Inr (Some [''a'', ''b'', ''c'', ''d'', ''e'', ''f''])"
proof -
  have "\<exists>k res. k \<in> set [''a'', ''b'', ''c'', ''d'', ''e'', ''f'', ''g'']
           \<and> peer_finder stable_sort_values TI seven_towns ''sp'' k = Inr (Some res)
           \<and> length res = 6
           \<and> k \<notin> set (map (municipio \<circ> city) res)"
    using target_cut_by_ties [OF stable_sort_values_spec] by blast
  moreover have "map_sum id (map_option (map (municipio \<circ> city)))
        (peer_finder stable_sort_values TI seven_towns ''sp'' ''g'')
      = Inr (Some [''a'', ''b'', ''c'', ''d'', ''e'', ''f''])"
    by (simp add: peer_finder_def seven_towns_baseline peer_cluster_def sel_stats_def
        seven_baseline_def with_dist_def Let_def scale_max_def euclid_def stable_sort_values_def)
  ultimately show ?thesis by blast
qed

lemma scenario_sel_stats:
  "sel_stats scenario_baseline ''C'' = [\<lparr>municipio = ''C'', total = 10, second = 2\<rparr>]"
  by (simp add: sel_stats_def scenario_baseline_def)

lemma scenario_with_dist:
  "with_dist scenario_baseline \<lparr>municipio = ''C'', total = 10, second = 2\<rparr>
     = [(\<lparr>municipio = ''A'', total = 10, second = 2\<rparr>, 0),
        (\<lparr>municipio = ''B'', total = 4, second = 8\<rparr>, sqrt (369 / 400)),
        (\<lparr>municipio = ''C'', total = 10, second = 2\<rparr>, 0)]"
  by (simp add: with_dist_def scenario_baseline_def Let_def scale_max_def euclid_def
      power2_eq_square)

lemma sqrt_scenario_bounds: "960 / 1000 < sqrt (369 / 400) \<and> sqrt (369 / 400) < 961 / 1000"
proof
  show "960 / 1000 < sqrt (369 / 400)"
    by (rule real_less_rsqrt) (simp add: power2_eq_square)
  show "sqrt (369 / 400) < 961 / 1000"
    by (rule real_less_lsqrt) (simp_all add: power2_eq_square)
qed

lemma sorted_three_rows:
  fixes a b c :: "'a \<times> real"
  assumes m: "mset ys = mset [a, b, c]" and s: "sorted (map snd ys)"
    and "snd a = 0" and "snd c = 0" and "0 < snd b"
  shows "ys = [a, c, b] \<or> ys = [c, a, b]"
proof -
  have "length ys = length [a, b, c]" using m by (rule mset_eq_length)
  then obtain x y z where ys: "ys = [x, y, z]"
    by (cases ys; cases "tl ys"; cases "tl (tl ys)") auto
  have le: "snd x \<le> snd y" "snd y \<le> snd z" using s ys by simp_all
  have in_set: "set [x, y, z] = set [a, b, c]" using m ys mset_eq_setD by blast
  have "b \<in> {x, y, z}" using in_set by auto
  then have zb: "z = b"
  proof (elim insertE emptyE)
    assume "b = x"
    moreover have "y \<in> {a, b, c}" using in_set by auto
    moreover have "z \<in> {a, b, c}" using in_set by auto
    moreover have "count (mset [x, y, z]) b = count (mset [a, b, c]) b" using m ys by simp
    ultimately show ?thesis using le assms(3,4,5) by (auto split: if_splits)
  next
    assume "b = y"
    moreover have "z \<in> {a, b, c}" using in_set by auto
    ultimately show ?thesis using le assms(3,4,5) by auto
  next
    assume "b = z" then show ?thesis by simp
  qed
  have "{#y, x#} = {#c, a#}" using m ys zb by simp
  then have "(x = a \<and> y = c) \<or> (x = c \<and> y = a)" by (auto simp: add_eq_conv_ex)
  then show ?thesis using ys zb by auto
qed

lemma peer_cluster_sorted:
  assumes spec: "sort_values_spec srt" and found: "sel_stats cmf sel \<noteq> []"
  shows "\<exists>res. peer_cluster srt cmf sel = Some res \<and> sorted (map dist_euclidiana res)"
proof -
  obtain t ts where t: "sel_stats cmf sel = t # ts"
    using found by (cases "sel_stats cmf sel") auto
  let ?top = "take 6 (srt (with_dist cmf t))"
  let ?res = "map (\<lambda>(c, d). \<lparr>city = c, dist_euclidiana = d, alvo_atual = (municipio c = sel)\<rparr>) ?top"
  have d: "map dist_euclidiana ?res = map snd ?top" by (rule dist_of_labelled)
  have "sorted (map snd (srt (with_dist cmf t)))" by (rule sorted_rows(2) [OF spec])
  then have "sorted (take 6 (map snd (srt (with_dist cmf t))))" by (rule sorted_wrt_take)
  then have "sorted (map snd ?top)" by (simp only: take_map)
  then have "sorted (map dist_euclidiana ?res)" by (simp only: d)
  then show ?thesis using peer_cluster_found [OF t, of srt] by blast
qed

lemma scenario_stable:
  "map_option (map (municipio \<circ> city)) (peer_cluster stable_sort_values scenario_baseline ''C'')
     = Some [''A'', ''C'', ''B'']"
  by (simp add: peer_cluster_def scenario_sel_stats scenario_with_dist stable_sort_values_def)

lemma scenario_ties_reversed:
  "map_option (map (municipio \<circ> city))
     (peer_cluster ties_reversed_sort_values scenario_baseline ''C'')
     = Some [''C'', ''A'', ''B'']"
  by (simp add: peer_cluster_def scenario_sel_stats scenario_with_dist
      ties_reversed_sort_values_def)

text \<open>
  Claim C6, as amended. The result is ascending by distance, and the order among rows of
  equal distance is the sort's choice, not fixed by the code. In the scenario of the
  specification (baseline A, B, C in this order, target C) every sort returns A and C, both
  at distance 0, in one of the two orders, followed by B at the square root of 0.9225, which
  lies between 0.960 and 0.961; a sort that keeps ties in baseline order returns A, C, B, and
  a sort that reverses them returns C, A, B.
\<close>

theorem peer_ties_order_not_fixed:
  "(sort_values_spec srt \<and> sel_stats cmf sel \<noteq> [] \<longrightarrow>
      (\<exists>res. peer_cluster srt cmf sel = Some res \<and> sorted (map dist_euclidiana res)))
   \<and> (sort_values_spec srt \<longrightarrow>
      (\<exists>res. peer_cluster srt scenario_baseline ''C'' = Some res
         \<and> (map (municipio \<circ> city) res = [''A'', ''C'', ''B'']
              \<or> map (municipio \<circ> city) res = [''C'', ''A'', ''B''])
         \<and> map dist_euclidiana res = [0, 0, sqrt (369 / 400)]))
   \<and> map_option (map (municipio \<circ> city)) (peer_cluster stable_sort_values scenario_baseline ''C'')
       = Some [''A'', ''C'', ''B'']
   \<and> map_option (map (municipio \<circ> city))
        (peer_cluster ties_reversed_sort_values scenario_baseline ''C'')
       = Some [''C'', ''A'', ''B'']
   \<and> 960 / 1000 < sqrt (369 / 400) \<and> sqrt (369 / 400) < 961 / 1000"
proof -
  have g: "sort_values_spec srt \<and> sel_stats cmf sel \<noteq> [] \<longrightarrow>
      (\<exists>res. peer_cluster srt cmf sel = Some res \<and> sorted (map dist_euclidiana res))"
    using peer_cluster_sorted by blast
  have sc: "sort_values_spec srt \<longrightarrow>
      (\<exists>res. peer_cluster srt scenario_baseline ''C'' = Some res
         \<and> (map (municipio \<circ> city) res = [''A'', ''C'', ''B'']
              \<or> map (municipio \<circ> city) res = [''C'', ''A'', ''B''])
         \<and> map dist_euclidiana res = [0, 0, sqrt (369 / 400)])"
  proof
    assume spec: "sort_values_spec srt"
    let ?a = "(\<lparr>municipio = ''A'', total = 10, second = 2\<rparr>, 0::real)"
    let ?b = "(\<lparr>municipio = ''B'', total = 4, second = 8\<rparr>, sqrt (369 / 400))"
    let ?c = "(\<lparr>municipio = ''C'', total = 10, second = 2\<rparr>, 0::real)"
    let ?ys = "srt [?a, ?b, ?c]"
    let ?res = "map (\<lambda>(c, d). \<lparr>city = c, dist_euclidiana = d, alvo_atual = (municipio c = ''C'')\<rparr>)
                    (take 6 ?ys)"
    have r: "peer_cluster srt scenario_baseline ''C'' = Some ?res"
      by (simp add: peer_cluster_def scenario_sel_stats scenario_with_dist)
    have pos: "0 < snd ?b" using sqrt_scenario_bounds by simp
    have "?ys = [?a, ?c, ?b] \<or> ?ys = [?c, ?a, ?b]"
      by (rule sorted_three_rows [OF sorted_rows(1) [OF spec] sorted_rows(2) [OF spec] _ _ pos])
         simp_all
    then have k: "(map (municipio \<circ> city) ?res = [''A'', ''C'', ''B'']
                 \<or> map (municipio \<circ> city) ?res = [''C'', ''A'', ''B''])
               \<and> map dist_euclidiana ?res = [0, 0, sqrt (369 / 400)]"
      by (elim disjE) simp_all
    show "\<exists>res. peer_cluster srt scenario_baseline ''C'' = Some res
         \<and> (map (municipio \<circ> city) res = [''A'', ''C'', ''B'']
              \<or> map (municipio \<circ> city) res = [''C'', ''A'', ''B''])
         \<and> map dist_euclidiana res = [0, 0, sqrt (369 / 400)]"
      by (rule exI [of _ ?res], rule conjI [OF r k])
  qed
  show ?thesis
    by (rule conjI [OF g conjI [OF sc conjI [OF scenario_stable
          conjI [OF scenario_ties_reversed sqrt_scenario_bounds]]]])
qed

theorem peer_ties_order_not_fixed_witness:
  "sel_stats seven_baseline ''g'' \<noteq> []
   \<and> (\<exists>res. peer_cluster ties_reversed_sort_values seven_baseline ''g'' = Some res
          \<and> sorted (map dist_euclidiana res))
   \<and> (\<exists>res. peer_cluster ties_reversed_sort_values scenario_baseline ''C'' = Some res
          \<and> (map (municipio \<circ> city) res = [''A'', ''C'', ''B'']
               \<or> map (municipio \<circ> city) res = [''C'', ''A'', ''B''])
          \<and> map dist_euclidiana res = [0, 0, sqrt (369 / 400)])"
proof -
  have a: "sel_stats seven_baseline ''g'' \<noteq> []"
    by (simp add: sel_stats_def seven_baseline_def)
  note spec = ties_reversed_sort_values_spec
  note th = peer_ties_order_not_fixed [of ties_reversed_sort_values seven_baseline "''g''"]
  have w1: "\<exists>res. peer_cluster ties_reversed_sort_values seven_baseline ''g'' = Some res
          \<and> sorted (map dist_euclidiana res)"
    by (rule mp [OF conjunct1 [OF th] conjI [OF spec a]])
  have w2: "\<exists>res. peer_cluster ties_reversed_sort_values scenario_baseline ''C'' = Some res
          \<and> (map (municipio \<circ> city) res = [''A'', ''C'', ''B'']
               \<or> map (municipio \<circ> city) res = [''C'', ''A'', ''B''])
          \<and> map dist_euclidiana res = [0, 0, sqrt (369 / 400)]"
    by (rule mp [OF conjunct1 [OF conjunct2 [OF th]] spec])
  show ?thesis by (rule conjI [OF a conjI [OF w1 w2]])
qed

text \<open>
  Claim C6, as stated, fails on the scenario. With a sort that keeps ties in baseline order
  the returned order is not C, A, B; with a sort that returns C, A, B the rows A and C, both
  at distance 0, are not in their baseline order A, B, C.
\<close>

theorem scenario_order_counterexample:
  "map_option (map (municipio \<circ> city)) (peer_cluster stable_sort_values scenario_baseline ''C'')
     \<noteq> Some [''C'', ''A'', ''B'']
   \<and> map_option (map (municipio \<circ> city))
        (peer_cluster ties_reversed_sort_values scenario_baseline ''C'')
       = Some [''C'', ''A'', ''B'']
   \<and> map municipio scenario_baseline = [''A'', ''B'', ''C'']"
proof -
  have "map municipio scenario_baseline = [''A'', ''B'', ''C'']"
    by (simp add: scenario_baseline_def)
  moreover have "map_option (map (municipio \<circ> city))
                   (peer_cluster stable_sort_values scenario_baseline ''C'')
                 \<noteq> Some [''C'', ''A'', ''B'']"
    by (simp only: scenario_stable) simp
  ultimately show ?thesis using scenario_ties_reversed by (simp only:) simp
qed

section \<open>Properties of the Aggregator\<close>

lemma length_filter_disjoint:
  assumes "\<And>x. x \<in> set xs \<Longrightarrow> \<not> (P x \<and> Q x)"
  shows "length (filter P xs) + length (filter Q xs) = length (filter (\<lambda>x. P x \<or> Q x) xs)"
  using assms by (induction xs) auto

lemma sum_group_sizes:
  assumes "distinct ks"
  shows "sum_list (map (\<lambda>k. length (filter (\<lambda>r. col r = Some k \<and> P r) rs)) ks)
       = length (filter (\<lambda>r. (\<exists>k \<in> set ks. col r = Some k) \<and> P r) rs)"
  using assms
proof (induction ks)
  case Nil
  then show ?case by simp
next
  case (Cons k ks)
  have d: "\<And>r. r \<in> set rs \<Longrightarrow>
      \<not> ((col r = Some k \<and> P r) \<and> ((\<exists>j \<in> set ks. col r = Some j) \<and> P r))"
    using Cons.prems by auto
  have "sum_list (map (\<lambda>k. length (filter (\<lambda>r. col r = Some k \<and> P r) rs)) (k # ks))
      = length (filter (\<lambda>r. col r = Some k \<and> P r) rs)
        + length (filter (\<lambda>r. (\<exists>j \<in> set ks. col r = Some j) \<and> P r) rs)"
    using Cons by simp
  also have "\<dots> = length (filter (\<lambda>r. (col r = Some k \<and> P r)
                                     \<or> ((\<exists>j \<in> set ks. col r = Some j) \<and> P r)) rs)"
    by (rule length_filter_disjoint [OF d])
  also have "\<dots> = length (filter (\<lambda>r. (\<exists>j \<in> set (k # ks). col r = Some j) \<and> P r) rs)"
    by (rule arg_cong [where f = length], rule filter_cong) auto
  finally show ?case .
qed

lemma distinct_group_keys: "distinct (group_keys col rs)"
  by (simp add: group_keys_def)

lemma set_group_keys: "set (group_keys col rs) = {k. \<exists>r \<in> set rs. col r = Some k}"
proof -
  have "set (List.map_filter col rs) = {k. \<exists>r \<in> set rs. col r = Some k}"
    by (induction rs) (auto split: option.splits)
  then show ?thesis by (simp add: group_keys_def)
qed

lemma keys_city_matrix_idade:
  "map municipio (city_matrix_idade rs) = group_keys municipio_norm rs"
  by (simp add: city_matrix_idade_def groupby_def comp_def)

lemma totals_city_matrix_idade:
  "map total (city_matrix_idade rs)
     = map (\<lambda>k. real (length (filter (\<lambda>r. municipio_norm r = Some k \<and> cnpj_completo r \<noteq> None) rs)))
           (group_keys municipio_norm rs)"
  by (simp add: city_matrix_idade_def groupby_def comp_def agg_count_def conj_commute)

lemma sum_list_real: "sum_list (map (\<lambda>k. real (f k)) ks) = real (sum_list (map f ks))"
  by (induction ks) auto

text \<open>
  Claim C7, as amended. The city aggregation has exactly one row per distinct city named by
  some record, and its counts add up to the number of records that have both a city and a tax
  id (a record without a city belongs to no group, and \<open>count\<close> counts the non-null tax
  ids); so the counts add up to the population size when no record lacks either.
\<close>

theorem aggregator_groups_and_counts:
  "distinct (map municipio (city_matrix_idade rs))
   \<and> set (map municipio (city_matrix_idade rs)) = {k. \<exists>r \<in> set rs. municipio_norm r = Some k}
   \<and> sum_list (map total (city_matrix_idade rs))
       = real (length (filter (\<lambda>r. municipio_norm r \<noteq> None \<and> cnpj_completo r \<noteq> None) rs))
   \<and> ((\<forall>r \<in> set rs. municipio_norm r \<noteq> None \<and> cnpj_completo r \<noteq> None)
        \<longrightarrow> sum_list (map total (city_matrix_idade rs)) = real (length rs))"
proof -
  have a: "distinct (map municipio (city_matrix_idade rs))"
    by (simp only: keys_city_matrix_idade distinct_group_keys)
  have b: "set (map municipio (city_matrix_idade rs)) = {k. \<exists>r \<in> set rs. municipio_norm r = Some k}"
    by (simp only: keys_city_matrix_idade set_group_keys)
  have "sum_list (map total (city_matrix_idade rs))
      = real (sum_list (map (\<lambda>k. length (filter (\<lambda>r. municipio_norm r = Some k \<and> cnpj_completo r \<noteq> None) rs))
                            (group_keys municipio_norm rs)))"
    by (simp only: totals_city_matrix_idade sum_list_real)
  also have "\<dots> = real (length (filter (\<lambda>r. (\<exists>k \<in> set (group_keys municipio_norm rs). municipio_norm r = Some k)
                                           \<and> cnpj_completo r \<noteq> None) rs))"
    by (simp only: sum_group_sizes [OF distinct_group_keys])
  also have "\<dots> = real (length (filter (\<lambda>r. municipio_norm r \<noteq> None \<and> cnpj_completo r \<noteq> None) rs))"
    by (rule arg_cong [where f = "\<lambda>xs. real (length xs)"], rule filter_cong)
       (auto simp: set_group_keys)
  finally have c: "sum_list (map total (city_matrix_idade rs))
       = real (length (filter (\<lambda>r. municipio_norm r \<noteq> None \<and> cnpj_completo r \<noteq> None) rs))" .
  have d: "(\<forall>r \<in> set rs. municipio_norm r \<noteq> None \<and> cnpj_completo r \<noteq> None)
        \<longrightarrow> sum_list (map total (city_matrix_idade rs)) = real (length rs)"
    using c by simp
  show ?thesis using a b c d by blast
qed

theorem aggregator_groups_and_counts_witness:
  "map municipio (city_matrix_idade (rows seven_towns)) = [''a'', ''b'', ''c'', ''d'', ''e'', ''f'', ''g'']
   \<and> sum_list (map total (city_matrix_idade (rows seven_towns))) = 7
   \<and> sum_list (map total (city_matrix_idade two_firms_one_without_city)) = 1"
proof -
  have h: "\<forall>r \<in> set (rows seven_towns). municipio_norm r \<noteq> None \<and> cnpj_completo r \<noteq> None"
    by (simp add: seven_towns_def sample_company_def)
  have l: "real (length (rows seven_towns)) = 7" by (simp add: seven_towns_def)
  have k: "map municipio (city_matrix_idade (rows seven_towns)) = [''a'', ''b'', ''c'', ''d'', ''e'', ''f'', ''g'']"
    by (simp add: city_matrix_idade_def groupby_def group_keys_def List.map_filter_def
        seven_towns_def sample_company_def)
  have f: "real (length (filter (\<lambda>r. municipio_norm r \<noteq> None \<and> cnpj_completo r \<noteq> None)
                           two_firms_one_without_city)) = 1"
    by (simp add: two_firms_one_without_city_def sample_company_def)
  show ?thesis
    using aggregator_groups_and_counts [of "rows seven_towns"]
          aggregator_groups_and_counts [of two_firms_one_without_city] h l k f
    by (simp only:) simp
qed

text \<open>
  Claim C7, as stated, fails on a non-empty population with a record without a city: the
  counts add up to 1, the population has 2 records.
\<close>

theorem counts_miss_null_city_counterexample:
  "two_firms_one_without_city \<noteq> []
   \<and> sum_list (map total (city_matrix_idade two_firms_one_without_city))
       \<noteq> real (length two_firms_one_without_city)"
  by (simp add: two_firms_one_without_city_def city_matrix_idade_def groupby_def group_keys_def
      List.map_filter_def agg_count_def sample_company_def)

section \<open>Properties of the Lead Ranker\<close>

lemma insort_key_map_commute:
  "insort_key g (h x) (map h xs) = map h (insort_key (\<lambda>r. g (h r)) x xs)"
  by (induction xs) auto

lemma sort_key_map_commute:
  "sort_key g (map h xs) = map h (sort_key (\<lambda>r. g (h r)) xs)"
  by (induction xs) (auto simp: insort_key_map_commute)

lemma sorted_three_keys: "sorted_wrt spec_before_three_keys (sort_capital_score_idade rs)"
proof -
  let ?k = "\<lambda>r. (- capital_social r, - score_contato r, - idade_empresa_anos r)"
  have "sorted (map ?k (sort_key ?k rs))" by (rule sorted_sort_key)
  then have "sorted_wrt (\<lambda>x y. ?k x \<le> ?k y) (sort_key ?k rs)" by (simp only: sorted_map)
  then have "sorted_wrt spec_before_three_keys (sort_key ?k rs)"
    by (rule sorted_wrt_mono_rel [rotated])
       (auto simp: spec_before_three_keys_def less_eq_prod_def less_prod_def)
  then show ?thesis by (simp only: sort_capital_score_idade_def)
qed

lemma sorted_two_keys: "sorted_wrt spec_before_two_keys (sort_capital_idade rs)"
proof -
  let ?k = "\<lambda>r. (- capital_social r, - idade_empresa_anos r)"
  have "sorted (map ?k (sort_key ?k rs))" by (rule sorted_sort_key)
  then have "sorted_wrt (\<lambda>x y. ?k x \<le> ?k y) (sort_key ?k rs)" by (simp only: sorted_map)
  then have "sorted_wrt spec_before_two_keys (sort_key ?k rs)"
    by (rule sorted_wrt_mono_rel [rotated])
       (auto simp: spec_before_two_keys_def less_eq_prod_def)
  then show ?thesis by (simp only: sort_capital_idade_def)
qed

lemma two_keys_ignore_score:
  "sort_capital_idade (map (score_contato_update f) rs)
     = map (score_contato_update f) (sort_capital_idade rs)"
  by (simp add: sort_capital_idade_def sort_key_map_commute)

text \<open>
  Claim C2. In app4 and app5, when the frame has the column \<open>score_contato\<close> the leads are
  the rows sorted by capital, contact score and age, each descending: a permutation of the
  rows that is ordered by the three-key comparator of the specification. When the frame
  lacks the column the leads are exactly the two-key sort (capital, age) of the same rows,
  which is what app3 computes; they are ordered by the two-key comparator, and the contact
  score plays no part at all: overwriting the score fields of the rows in any way gives the
  same order.
\<close>

theorem lead_ranker_keys:
  assumes a: "a = Educacao \<or> a = Construcao"
  shows "(has_column df ''score_contato'' \<longrightarrow>
            df_leads a df = sort_capital_score_idade (rows df)
          \<and> sorted_wrt spec_before_three_keys (df_leads a df)
          \<and> mset (df_leads a df) = mset (rows df))
       \<and> (\<not> has_column df ''score_contato'' \<longrightarrow>
            df_leads a df = sort_capital_idade (rows df)
          \<and> df_leads a df = df_leads TI df
          \<and> sorted_wrt spec_before_two_keys (df_leads a df)
          \<and> mset (df_leads a df) = mset (rows df)
          \<and> (\<forall>f. df_leads a (df\<lparr>rows := map (score_contato_update f) (rows df)\<rparr>)
                   = map (score_contato_update f) (df_leads a df)))"
proof -
  have p: "has_column df ''score_contato'' \<Longrightarrow> df_leads a df = sort_capital_score_idade (rows df)"
    using a by (auto simp: df_leads_def)
  have q: "\<not> has_column df ''score_contato'' \<Longrightarrow> df_leads a df = sort_capital_idade (rows df)"
    using a by (auto simp: df_leads_def)
  have t: "df_leads TI df = sort_capital_idade (rows df)" by (simp add: df_leads_def)
  have m3: "mset (sort_capital_score_idade (rows df)) = mset (rows df)"
    by (simp add: sort_capital_score_idade_def)
  have m2: "mset (sort_capital_idade (rows df)) = mset (rows df)"
    by (simp add: sort_capital_idade_def)
  have u: "\<not> has_column df ''score_contato'' \<Longrightarrow>
      df_leads a (df\<lparr>rows := map (score_contato_update f) (rows df)\<rparr>)
        = map (score_contato_update f) (df_leads a df)" for f
  proof -
    assume n: "\<not> has_column df ''score_contato''"
    then have "\<not> has_column (df\<lparr>rows := map (score_contato_update f) (rows df)\<rparr>) ''score_contato''"
      by (simp add: has_column_def)
    then have "df_leads a (df\<lparr>rows := map (score_contato_update f) (rows df)\<rparr>)
        = sort_capital_idade (map (score_contato_update f) (rows df))"
      using a by (auto simp: df_leads_def)
    then show ?thesis using q [OF n] by (simp add: two_keys_ignore_score)
  qed
  show ?thesis
    using p q t m2 m3 u sorted_three_keys [of "rows df"] sorted_two_keys [of "rows df"]
    by (cases "has_column df ''score_contato''") simp_all
qed

theorem lead_ranker_keys_witness:
  "map cnpj_completo (df_leads Educacao ranked_sample) = [Some ''3'', Some ''2'', Some ''1'']
   \<and> map cnpj_completo (df_leads Construcao ranked_sample_without_score)
       = [Some ''2'', Some ''3'', Some ''1'']"
proof -
  have h: "has_column ranked_sample ''score_contato''"
    by (simp add: has_column_def ranked_sample_def)
  have n: "\<not> has_column ranked_sample_without_score ''score_contato''"
    by (simp add: has_column_def ranked_sample_without_score_def)
  have e3: "map cnpj_completo (sort_capital_score_idade (rows ranked_sample))
              = [Some ''3'', Some ''2'', Some ''1'']"
    by (simp add: sort_capital_score_idade_def ranked_sample_def sample_company_def
        less_eq_prod_def less_prod_def)
  have e2: "map cnpj_completo (sort_capital_idade (rows ranked_sample_without_score))
              = [Some ''2'', Some ''3'', Some ''1'']"
    by (simp add: sort_capital_idade_def ranked_sample_without_score_def ranked_sample_def
        sample_company_def less_eq_prod_def)
  have "df_leads Educacao ranked_sample = sort_capital_score_idade (rows ranked_sample)"
    using lead_ranker_keys [of Educacao ranked_sample] h by simp
  moreover have "df_leads Construcao ranked_sample_without_score
                   = sort_capital_idade (rows ranked_sample_without_score)"
    using lead_ranker_keys [of Construcao ranked_sample_without_score] n by simp
  ultimately show ?thesis using e3 e2 by (simp only:)
qed

section \<open>Properties of the KPI Calculator\<close>

lemma percentage_range:
  assumes "vol \<le> tot"
  shows "\<exists>p. percentage vol tot = Inr p \<and> 0 \<le> p \<and> p \<le> 100 \<and> (tot = 0 \<longrightarrow> p = 0)"
proof (cases "tot = 0")
  case True
  then show ?thesis by (simp add: percentage_def)
next
  case False
  then have pos: "0 < real tot" by simp
  have "real vol \<le> real tot" using assms by simp
  then have "real vol / real tot * 100 \<le> 100" using pos by (simp add: field_simps)
  moreover have "0 \<le> real vol / real tot * 100" by simp
  moreover have "percentage vol tot = Inr (real vol / real tot * 100)"
    using False by (simp add: percentage_def true_div_def)
  ultimately show ?thesis using False by simp
qed

lemma perc_ltda_range:
  "\<exists>p. perc_ltda df = Inr p \<and> 0 \<le> p \<and> p \<le> 100 \<and> (rows df = [] \<longrightarrow> p = 0)"
proof (cases "has_column df ''natureza_juridica''")
  case True
  then show ?thesis
    using percentage_range [of "length (filter (\<lambda>r. startswith (natureza_juridica r) ''2'') (rows df))"
                               "length (rows df)"]
    by (simp add: perc_ltda_def)
next
  case False
  then show ?thesis by (simp add: perc_ltda_def)
qed

lemma high_ticket_perc_range:
  "\<exists>p. high_ticket_perc df = Inr p \<and> 0 \<le> p \<and> p \<le> 100 \<and> (rows df = [] \<longrightarrow> p = 0)"
proof (cases "has_column df ''is_high_ticket''")
  case True
  then show ?thesis
    using percentage_range [of "agg_sum_flag is_high_ticket (rows df)" "length (rows df)"]
    by (simp add: high_ticket_perc_def agg_sum_flag_def)
next
  case False
  then show ?thesis by (simp add: high_ticket_perc_def)
qed

lemma ouro_perc_range:
  "\<exists>p. ouro_perc df = Inr p \<and> 0 \<le> p \<and> p \<le> 100 \<and> (rows df = [] \<longrightarrow> p = 0)"
proof (cases "has_column df ''qualidade_contato''")
  case True
  then show ?thesis
    using percentage_range [of "length (filter (\<lambda>r. qualidade_contato r = Some ''Ouro (Tel+Email)'') (rows df))"
                               "length (rows df)"]
    by (simp add: ouro_perc_def)
next
  case False
  then show ?thesis by (simp add: ouro_perc_def)
qed

lemma alto_risco_perc_range:
  "\<exists>p. alto_risco_perc df = Inr p \<and> 0 \<le> p \<and> p \<le> 100 \<and> (rows df = [] \<longrightarrow> p = 0)"
proof (cases "has_column df ''risco_operacional''")
  case True
  then show ?thesis
    using percentage_range [of "length (filter (\<lambda>r. case risco_operacional r of None \<Rightarrow> False
                                               | Some s \<Rightarrow> contains s ''Alto Risco'') (rows df))"
                               "length (rows df)"]
    by (simp add: alto_risco_perc_def)
next
  case False
  then show ?thesis by (simp add: alto_risco_perc_def)
qed

lemma kpis_ti: "percentage_kpis TI kpi_sample = [Inr 50]"
  by (simp add: percentage_kpis_def perc_ltda_def has_column_def kpi_sample_def sample_company_def
      percentage_def true_div_def)

lemma kpis_edu: "percentage_kpis Educacao kpi_sample = [Inr 25, Inr 25]"
  by (simp add: percentage_kpis_def high_ticket_perc_def ouro_perc_def has_column_def kpi_sample_def
      sample_company_def percentage_def true_div_def agg_sum_flag_def)

lemma kpis_con: "percentage_kpis Construcao kpi_sample = [Inr 25, Inr 25]"
  by (simp add: percentage_kpis_def high_ticket_perc_def alto_risco_perc_def has_column_def kpi_sample_def
      sample_company_def percentage_def true_div_def agg_sum_flag_def)

text \<open>
  Claim C8. Every percentage indicator of every dashboard is computed without raising (in
  particular without a division by zero), lies between 0 and 100, and is 0 when the
  population is empty.
\<close>

theorem percentage_kpis_bounded:
  "\<forall>k \<in> set (percentage_kpis a df).
      \<exists>p. k = Inr p \<and> 0 \<le> p \<and> p \<le> 100 \<and> (rows df = [] \<longrightarrow> p = 0)"
  using perc_ltda_range [of df] high_ticket_perc_range [of df] ouro_perc_range [of df]
        alto_risco_perc_range [of df]
  by (cases a) (simp_all add: percentage_kpis_def)

theorem percentage_kpis_bounded_witness:
  "percentage_kpis Construcao kpi_sample = [Inr 25, Inr 25]
   \<and> rows empty_frame = []
   \<and> percentage_kpis Educacao empty_frame = [Inr 0, Inr 0]"
proof -
  have e: "rows empty_frame = []" by (simp add: empty_frame_def)
  have l: "percentage_kpis Educacao empty_frame
             = [high_ticket_perc empty_frame, ouro_perc empty_frame]"
    by (simp add: percentage_kpis_def)
  have "\<forall>k \<in> set (percentage_kpis Educacao empty_frame). k = Inr 0"
    using percentage_kpis_bounded [of Educacao empty_frame] e by auto
  then have "high_ticket_perc empty_frame = Inr 0 \<and> ouro_perc empty_frame = Inr 0"
    by (simp add: l)
  then show ?thesis using kpis_con e l by simp
qed

section \<open>Absent optional columns\<close>

text \<open>
  Claim C9 (evaluation at the failing input). On a frame without the column
  \<open>is_high_ticket\<close>, the state view and the benchmarking view of app4 raise \<open>KeyError\<close>,
  while the national view of the same dashboard derives the flag from the premium tiers.
\<close>

theorem absent_flag_raises:
  "city_matrix (sidebar_filters Educacao frame_without_flag state_sp) = Inl (KeyError ''is_high_ticket'')
   \<and> benchmarking srt Educacao frame_without_flag city_a = Raised (KeyError ''is_high_ticket'')
   \<and> map_sum id (\<lambda>d. map is_high_ticket (rows d)) (df_expansion Educacao frame_without_flag)
       = Inr [False, True]"
  by (simp add: city_matrix_def sidebar_filters_def has_column_def frame_without_flag_def
      state_sp_def city_a_def benchmarking_def effective_cidade_def geo_filter_def
      category_filter_def sample_company_def peer_finder_def city_matrix_full_def
      df_expansion_def isin_def premium_tiers_def Let_def)

section \<open>The benchmarking tab and the category filters\<close>

lemma two_portes_peers:
  "benchmarking stable_sort_values TI two_portes (city_a\<lparr>sel_porte := [''micro empresa'']\<rparr>)
     = Peers [\<lparr>city = \<lparr>municipio = ''a'', total = 1, second = 5\<rparr>, dist_euclidiana = 0, alvo_atual = True\<rparr>,
              \<lparr>city = \<lparr>municipio = ''b'', total = 1, second = 9\<rparr>, dist_euclidiana = 4 / 9, alvo_atual = False\<rparr>]"
  by (simp add: benchmarking_def effective_cidade_def Let_def sidebar_filters_def geo_filter_def
      category_filter_def has_column_def two_portes_def city_a_def state_sp_def sample_company_def
      isin_def peer_finder_def city_matrix_full_def city_matrix_idade_def df_state_baseline_def
      groupby_def group_keys_def List.map_filter_def agg_count_def agg_mean_def peer_cluster_def
      sel_stats_def with_dist_def scale_max_def euclid_def real_sqrt_divide
      stable_sort_values_def)

text \<open>
  Claim C10, as amended. For a fixed frame, state and city, two settings of the sidebar that
  both leave the filtered frame non-empty give the same benchmarking outcome (with one and the
  same sort), which for a selected city is the Peer Finder's result on the unfiltered frame
  restricted to the state;
  a setting that leaves the filtered frame empty stops the page before any peer is computed.
\<close>

theorem benchmarking_ignores_category_filters:
  "(sel_uf s = sel_uf s' \<and> sel_cidade s = sel_cidade s'
      \<and> rows (sidebar_filters a df s) \<noteq> [] \<and> rows (sidebar_filters a df s') \<noteq> []
      \<longrightarrow> benchmarking srt a df s = benchmarking srt a df s')
   \<and> (rows (sidebar_filters a df s) = [] \<longrightarrow> benchmarking srt a df s = No_data)
   \<and> (rows (sidebar_filters a df s) \<noteq> [] \<and> sel_uf s \<noteq> ''Todos'' \<and> sel_cidade s \<noteq> ''Todas'' \<longrightarrow>
        benchmarking srt a df s =
          (case peer_finder srt a df (sel_uf s) (sel_cidade s) of
             Inl e \<Rightarrow> Raised e
           | Inr None \<Rightarrow> Target_not_found
           | Inr (Some peers) \<Rightarrow> Peers peers))"
  by (simp add: benchmarking_def effective_cidade_def Let_def)

theorem benchmarking_ignores_category_filters_witness:
  "rows (sidebar_filters TI two_portes (city_a\<lparr>sel_porte := [''micro empresa'', ''demais'']\<rparr>)) \<noteq> []
   \<and> rows (sidebar_filters TI two_portes (city_a\<lparr>sel_porte := [''micro empresa'']\<rparr>)) \<noteq> []
   \<and> benchmarking stable_sort_values TI two_portes (city_a\<lparr>sel_porte := [''micro empresa'', ''demais'']\<rparr>)
       = benchmarking stable_sort_values TI two_portes (city_a\<lparr>sel_porte := [''micro empresa'']\<rparr>)
   \<and> rows (sidebar_filters TI two_portes (city_a\<lparr>sel_porte := [''demais'']\<rparr>)) = []
   \<and> benchmarking stable_sort_values TI two_portes (city_a\<lparr>sel_porte := [''demais'']\<rparr>) = No_data"
proof -
  let ?s = "city_a\<lparr>sel_porte := [''micro empresa'', ''demais'']\<rparr>"
  let ?s' = "city_a\<lparr>sel_porte := [''micro empresa'']\<rparr>"
  let ?e = "city_a\<lparr>sel_porte := [''demais'']\<rparr>"
  have g: "sel_uf ?s = sel_uf ?s' \<and> sel_cidade ?s = sel_cidade ?s'" by simp
  have n: "rows (sidebar_filters TI two_portes ?s) \<noteq> []"
    by (simp add: sidebar_filters_def geo_filter_def category_filter_def has_column_def
        two_portes_def city_a_def state_sp_def sample_company_def isin_def)
  have n': "rows (sidebar_filters TI two_portes ?s') \<noteq> []"
    by (simp add: sidebar_filters_def geo_filter_def category_filter_def has_column_def
        two_portes_def city_a_def state_sp_def sample_company_def isin_def)
  have e: "rows (sidebar_filters TI two_portes ?e) = []"
    by (simp add: sidebar_filters_def geo_filter_def category_filter_def has_column_def
        two_portes_def city_a_def state_sp_def sample_company_def isin_def)
  have "benchmarking stable_sort_values TI two_portes ?s = benchmarking stable_sort_values TI two_portes ?s'"
    using benchmarking_ignores_category_filters [of ?s ?s' TI two_portes stable_sort_values] g n n' by blast
  moreover have "benchmarking stable_sort_values TI two_portes ?e = No_data"
    using benchmarking_ignores_category_filters [of ?e ?e TI two_portes stable_sort_values] e by blast
  ultimately show ?thesis using n n' e by blast
qed


lemma category_filter_empties_any_sort:
  "benchmarking srt TI two_portes (city_a\<lparr>sel_porte := [''micro empresa'', ''demais'']\<rparr>)
     \<noteq> benchmarking srt TI two_portes (city_a\<lparr>sel_porte := [''demais'']\<rparr>)"
  by (simp add: benchmarking_def effective_cidade_def Let_def sidebar_filters_def geo_filter_def
      category_filter_def has_column_def two_portes_def city_a_def state_sp_def sample_company_def
      isin_def peer_finder_def city_matrix_full_def split: sum.splits option.splits)

text \<open>
  Claim C10, as stated, fails: with the same frame, state and city, one setting of the size
  filter shows the peers and another one, which no firm of the city matches, shows none
  (here with the insertion sort; the two outcomes differ with every sort).
\<close>

theorem category_filter_empties_counterexample:
  "benchmarking stable_sort_values TI two_portes (city_a\<lparr>sel_porte := [''micro empresa'', ''demais'']\<rparr>)
     \<noteq> benchmarking stable_sort_values TI two_portes (city_a\<lparr>sel_porte := [''demais'']\<rparr>)"
  by (simp add: benchmarking_def effective_cidade_def Let_def sidebar_filters_def geo_filter_def
      category_filter_def has_column_def two_portes_def city_a_def state_sp_def sample_company_def
      isin_def peer_finder_def city_matrix_full_def split: sum.splits option.splits)


end
